theory Spec2Isabelle
  imports Main
begin

section \<open>The endpoint of api/generate.js\<close>

text \<open>
  The file exports one request handler, \<^verbatim>\<open>allowCors(handler)\<close>. It is embedded here
  as a function on an explicit state: the response object \<^verbatim>\<open>res\<close> (its headers, its
  status code, what has been sent on it) together with the log of calls made to the
  generation provider. The provider (the SDK client, \<^verbatim>\<open>generateContent\<close> and
  \<^verbatim>\<open>response.text()\<close>) and the process environment are parameters. Console logging
  is left out, and so is what the hosting platform does around the exported function.
\<close>

subsection \<open>JavaScript values\<close>

text \<open>
  The request body, the prompt, the generated text and a thrown error are dynamically
  typed. Numbers are NaN and the integers \<open>n\<close> with \<open>\<bar>n\<bar> < 2 ^ 53\<close>, which a double
  holds exactly and prints in full; \<open>JNum n\<close> for another \<open>n\<close>, fractions and the
  negative zero are not values of the model. Strings are byte lists, a character
  outside ASCII standing as its UTF-8 bytes. An object is the list of its own
  properties, the first binding of a name being its value; functions are not values,
  so no property is callable.
\<close>

datatype jsval =
    JUndefined
  | JNull
  | JBool bool
  | JNum int
  | JNaN
  | JStr string
  | JArr "jsval list"
  | JObj "(string \<times> jsval) list"

datatype js_exn = TypeError

text \<open>ToBoolean, as \<^verbatim>\<open>!x\<close>, \<^verbatim>\<open>if (x)\<close>, \<^verbatim>\<open>&&\<close> and \<^verbatim>\<open>||\<close> apply it.\<close>

fun truthy :: "jsval \<Rightarrow> bool" where
  "truthy JUndefined = False"
| "truthy JNull = False"
| "truthy (JBool b) = b"
| "truthy (JNum n) = (n \<noteq> 0)"
| "truthy JNaN = False"
| "truthy (JStr s) = (s \<noteq> [])"
| "truthy (JArr xs) = True"
| "truthy (JObj ps) = True"

text \<open>\<^verbatim>\<open>a || b\<close>\<close>

definition js_or :: "jsval \<Rightarrow> jsval \<Rightarrow> jsval" where
  "js_or a b = (if truthy a then a else b)"

fun nullish :: "jsval \<Rightarrow> bool" where
  "nullish JUndefined = True"
| "nullish JNull = True"
| "nullish v = False"

text \<open>
  The value of \<^verbatim>\<open>v.k\<close> for a \<open>v\<close> that is neither undefined nor null, for the
  property names the file reads (prompt, response, data, status, error, message):
  none of them is a property of a string, number, boolean or array.
\<close>

fun member :: "jsval \<Rightarrow> string \<Rightarrow> jsval" where
  "member (JObj ps) k = (case map_of ps k of None \<Rightarrow> JUndefined | Some v \<Rightarrow> v)"
| "member v k = JUndefined"

text \<open>
  \<^verbatim>\<open>v.k\<close> and the destructuring \<^verbatim>\<open>const { k } = v\<close>: a TypeError on undefined and
  null.
\<close>

definition get_prop :: "jsval \<Rightarrow> string \<Rightarrow> js_exn + jsval" where
  "get_prop v k = (if nullish v then Inl TypeError else Inr (member v k))"

text \<open>\<^verbatim>\<open>v?.k\<close>\<close>

definition opt_chain :: "jsval \<Rightarrow> string \<Rightarrow> jsval" where
  "opt_chain v k = (if nullish v then JUndefined else member v k)"

text \<open>Sequencing of evaluations that may throw.\<close>

definition bind_exn :: "js_exn + 'a \<Rightarrow> ('a \<Rightarrow> js_exn + 'b) \<Rightarrow> js_exn + 'b" where
  "bind_exn m f = (case m of Inl ex \<Rightarrow> Inl ex | Inr v \<Rightarrow> f v)"

subsection \<open>Strings: template literals and includes\<close>

fun nat_digits :: "nat \<Rightarrow> string" where
  "nat_digits n =
     (if n < 10 then [''0123456789'' ! n]
      else nat_digits (n div 10) @ [''0123456789'' ! (n mod 10)])"

declare nat_digits.simps [simp del]

fun join_comma :: "string list \<Rightarrow> string" where
  "join_comma [] = []"
| "join_comma [s] = s"
| "join_comma (s # t # ts) = s @ '','' @ join_comma (t # ts)"

text \<open>The results of a list of evaluations, or the first exception among them.\<close>

fun sequence_exn :: "(js_exn + 'a) list \<Rightarrow> js_exn + 'a list" where
  "sequence_exn [] = Inr []"
| "sequence_exn (Inl ex # ms) = Inl ex"
| "sequence_exn (Inr v # ms) = bind_exn (sequence_exn ms) (\<lambda>vs. Inr (v # vs))"

text \<open>
  ToString, as a template literal \<^verbatim>\<open>`${v}`\<close> applies it. An array is joined with
  commas, undefined and null elements standing as the empty string. An object prints
  through the inherited \<^verbatim>\<open>toString\<close>; one with a property \<^verbatim>\<open>toString\<close> of its own,
  which is not callable here, has no primitive value and the conversion throws a
  TypeError.
\<close>

fun to_string :: "jsval \<Rightarrow> js_exn + string" where
  "to_string JUndefined = Inr ''undefined''"
| "to_string JNull = Inr ''null''"
| "to_string (JBool b) = Inr (if b then ''true'' else ''false'')"
| "to_string (JNum n) =
     Inr (if n < 0 then ''-'' @ nat_digits (nat (- n)) else nat_digits (nat n))"
| "to_string JNaN = Inr ''NaN''"
| "to_string (JStr s) = Inr s"
| "to_string (JArr xs) =
     bind_exn (sequence_exn (map (\<lambda>v. if nullish v then Inr [] else to_string v) xs))
       (\<lambda>ss. Inr (join_comma ss))"
| "to_string (JObj ps) =
     (case map_of ps ''toString'' of
        None \<Rightarrow> Inr ''[object Object]''
      | Some f \<Rightarrow> Inl TypeError)"

fun starts_with :: "string \<Rightarrow> string \<Rightarrow> bool" where
  "starts_with s [] = True"
| "starts_with [] (c # n) = False"
| "starts_with (a # s) (c # n) = (a = c \<and> starts_with s n)"

text \<open>\<^verbatim>\<open>String.prototype.includes\<close>: the needle occurs somewhere in the string.\<close>

fun str_includes :: "string \<Rightarrow> string \<Rightarrow> bool" where
  "str_includes [] n = (n = [])"
| "str_includes (a # s) n = (starts_with (a # s) n \<or> str_includes s n)"

text \<open>What contains the substring means: the needle lies between a prefix and a rest.\<close>

definition occurs_in :: "string \<Rightarrow> string \<Rightarrow> bool" where
  "occurs_in n s = (\<exists>p t. s = p @ n @ t)"

text \<open>
  The method call \<^verbatim>\<open>v.includes(needle)\<close> on a truthy \<open>v\<close>: the string method, the
  array method (is the needle an element), and a TypeError for a number, a boolean or
  a plain object, which have no such method.
\<close>

fun js_includes :: "jsval \<Rightarrow> string \<Rightarrow> js_exn + bool" where
  "js_includes (JStr s) needle = Inr (str_includes s needle)"
| "js_includes (JArr xs) needle = Inr (JStr needle \<in> set xs)"
| "js_includes v needle = Inl TypeError"

subsection \<open>Request, response object and provider\<close>

record request =
  req_method :: string
  req_body :: jsval

datatype payload = NoBody | Json jsval

text \<open>A response as it left the server: the status and headers at the time of sending.\<close>

record http_response =
  sent_status :: jsval
  sent_headers :: "string \<rightharpoonup> jsval"
  sent_body :: payload

record state =
  headers :: "string \<rightharpoonup> jsval"
  status_code :: jsval
  sent :: "http_response list"
  provider_calls :: "(jsval \<times> jsval) list"

text \<open>The response object a request starts with, and no provider call made yet.\<close>

definition fresh :: state where
  "fresh = \<lparr>headers = Map.empty, status_code = JNum 200, sent = [], provider_calls = []\<rparr>"

definition setHeader :: "string \<Rightarrow> jsval \<Rightarrow> state \<Rightarrow> state" where
  "setHeader k v res = res\<lparr>headers := (headers res)(k \<mapsto> v)\<rparr>"

definition status :: "jsval \<Rightarrow> state \<Rightarrow> state" where
  "status code res = res\<lparr>status_code := code\<rparr>"

definition send :: "payload \<Rightarrow> state \<Rightarrow> state" where
  "send b res =
     res\<lparr>sent := sent res @
       [\<lparr>sent_status = status_code res, sent_headers = headers res, sent_body = b\<rparr>]\<rparr>"

text \<open>\<^verbatim>\<open>res.json(v)\<close> and \<^verbatim>\<open>res.end()\<close>\<close>

definition json :: "jsval \<Rightarrow> state \<Rightarrow> state" where
  "json v res = send (Json v) res"

definition end_response :: "state \<Rightarrow> state" where
  "end_response res = send NoBody res"

text \<open>
  What the try block gets from the provider for an API key and a prompt: the text that
  \<^verbatim>\<open>response.text()\<close> returns, or the value that was thrown on the way.
\<close>

datatype outcome = Resolves jsval | Rejects jsval

type_synonym provider = "jsval \<Rightarrow> jsval \<Rightarrow> outcome"

type_synonym env = "string \<rightharpoonup> string"

text \<open>\<^verbatim>\<open>process.env.NAME\<close>: a string, or undefined when the variable is not set.\<close>

definition getenv :: "env \<Rightarrow> string \<Rightarrow> jsval" where
  "getenv e k = (case e k of None \<Rightarrow> JUndefined | Some s \<Rightarrow> JStr s)"

datatype completion = Returned | Threw js_exn

subsection \<open>The messages\<close>

definition msg_method :: string where
  "msg_method = ''M'' @ [CHR 0xC3, CHR 0xA9] @ ''todo no permitido''"

definition msg_prompt :: string where
  "msg_prompt = ''El campo \"prompt\" es requerido.''"

definition msg_config :: string where
  "msg_config = ''Error de configuraci'' @ [CHR 0xC3, CHR 0xB3] @ ''n del servidor.''"

definition msg_no_text :: string where
  "msg_no_text = ''No se recibi'' @ [CHR 0xC3, CHR 0xB3] @ '' una respuesta textual v''
     @ [CHR 0xC3, CHR 0xA1] @ ''lida del modelo.''"

definition msg_internal :: string where
  "msg_internal = ''Error interno al procesar la consulta con la IA.''"

definition msg_api_key :: string where
  "msg_api_key = ''La clave API no es v'' @ [CHR 0xC3, CHR 0xA1]
     @ ''lida o no tiene permisos. Verifique su GOOGLE_API_KEY.''"

definition msg_blocked :: string where
  "msg_blocked = ''Contenido bloqueado por las pol'' @ [CHR 0xC3, CHR 0xAD]
     @ ''ticas de seguridad de la IA: ''"

subsection \<open>The catch block (lines 125 to 149)\<close>

text \<open>The condition \<^verbatim>\<open>error.response && error.response.data\<close>.\<close>

definition response_and_data :: "jsval \<Rightarrow> js_exn + jsval" where
  "response_and_data error =
     bind_exn (get_prop error ''response'') (\<lambda>response.
       if truthy response then get_prop response ''data'' else Inr response)"

text \<open>\<^verbatim>\<open>error.response.data.error?.message\<close> and \<^verbatim>\<open>error.response.status\<close>.\<close>

definition embedded_message :: "jsval \<Rightarrow> js_exn + jsval" where
  "embedded_message error =
     bind_exn (get_prop error ''response'') (\<lambda>response.
     bind_exn (get_prop response ''data'') (\<lambda>data.
     bind_exn (get_prop data ''error'') (\<lambda>err.
       Inr (opt_chain err ''message''))))"

definition embedded_status :: "jsval \<Rightarrow> js_exn + jsval" where
  "embedded_status error =
     bind_exn (get_prop error ''response'') (\<lambda>response. get_prop response ''status'')"

text \<open>
  The block up to its last line: the pair \<open>(statusCode, errorMessage)\<close>, or the
  exception that one of its own property reads, its template literal or its
  \<^verbatim>\<open>includes\<close> call throws. The template literal of line 137 is evaluated before
  the first \<^verbatim>\<open>includes\<close>; the one of line 144 gives the same string again.
\<close>

definition normalize_error :: "jsval \<Rightarrow> js_exn + (jsval \<times> jsval)" where
  "normalize_error error =
     bind_exn (response_and_data error) (\<lambda>c.
       if truthy c then
         bind_exn (embedded_message error) (\<lambda>m.
         bind_exn (embedded_status error) (\<lambda>st.
           Inr (js_or st (JNum 500), js_or m (JStr msg_internal))))
       else
         bind_exn (get_prop error ''message'') (\<lambda>message.
           if truthy message then
             bind_exn (to_string message) (\<lambda>s.
             bind_exn (js_includes message ''API key not valid'') (\<lambda>invalid.
               if invalid then Inr (JNum 401, JStr msg_api_key)
               else
                 bind_exn (js_includes message ''Blocked reason'') (\<lambda>blocked.
                   if blocked then Inr (JNum 403, JStr (msg_blocked @ s))
                   else Inr (JNum 500, JStr (''Error de Gemini: '' @ s)))))
           else Inr (JNum 500, JStr msg_internal)))"

subsection \<open>handler (lines 39 to 150)\<close>

definition handler :: "env \<Rightarrow> provider \<Rightarrow> request \<Rightarrow> state \<Rightarrow> completion \<times> state" where
  "handler e gen req res =
     (if req_method req \<noteq> ''POST'' then
        (Returned,
         json (JObj [(''error'', JStr msg_method)])
           (status (JNum 405) (setHeader ''Allow'' (JArr [JStr ''POST'']) res)))
      else
        (case get_prop (req_body req) ''prompt'' of
          Inl ex \<Rightarrow> (Threw ex, res)
        | Inr prompt \<Rightarrow>
            if \<not> truthy prompt then
              (Returned, json (JObj [(''error'', JStr msg_prompt)]) (status (JNum 400) res))
            else
              let apiKey = getenv e ''GOOGLE_API_KEY'' in
              if \<not> truthy apiKey then
                (Returned, json (JObj [(''error'', JStr msg_config)]) (status (JNum 500) res))
              else
                let res1 = res\<lparr>provider_calls := provider_calls res @ [(apiKey, prompt)]\<rparr> in
                (case gen apiKey prompt of
                  Resolves text \<Rightarrow>
                    if truthy text then
                      (Returned,
                       json (JObj [(''candidates'',
                               JArr [JObj [(''content'',
                                 JObj [(''parts'', JArr [JObj [(''text'', text)]])])]])])
                         (status (JNum 200) res1))
                    else
                      (Returned,
                       json (JObj [(''error'', JStr msg_no_text)]) (status (JNum 500) res1))
                | Rejects error \<Rightarrow>
                    (case normalize_error error of
                       Inl ex \<Rightarrow> (Threw ex, res1)
                     | Inr (statusCode, errorMessage) \<Rightarrow>
                         (Returned,
                          json (JObj [(''error'', errorMessage)]) (status statusCode res1))))))"

subsection \<open>allowCors (lines 22 to 33) and the export\<close>

definition allow_headers :: string where
  "allow_headers = ''X-CSRF-Token, X-Requested-With, Accept, Accept-Version, Content-Length, Content-MD5, Content-Type, Date, X-Api-Version''"

definition allowCors ::
  "(request \<Rightarrow> state \<Rightarrow> completion \<times> state) \<Rightarrow> request \<Rightarrow> state \<Rightarrow> completion \<times> state" where
  "allowCors fn req res =
     (let res1 = setHeader ''Access-Control-Allow-Credentials'' (JBool True) res;
          res2 = setHeader ''Access-Control-Allow-Origin'' (JStr ''*'') res1;
          res3 = setHeader ''Access-Control-Allow-Methods'' (JStr ''POST, OPTIONS'') res2;
          res4 = setHeader ''Access-Control-Allow-Headers'' (JStr allow_headers) res3
      in if req_method req = ''OPTIONS'' then (Returned, end_response (status (JNum 200) res4))
         else fn req res4)"

text \<open>\<^verbatim>\<open>module.exports = allowCors(handler)\<close>\<close>

definition module_exports :: "env \<Rightarrow> provider \<Rightarrow> request \<Rightarrow> state \<Rightarrow> completion \<times> state" where
  "module_exports e gen = allowCors (handler e gen)"

subsection \<open>Observing a run\<close>

text \<open>The headers \<open>allowCors\<close> sets on a fresh response object.\<close>

definition cors_headers :: "string \<rightharpoonup> jsval" where
  "cors_headers =
     [''Access-Control-Allow-Credentials'' \<mapsto> JBool True,
      ''Access-Control-Allow-Origin'' \<mapsto> JStr ''*'',
      ''Access-Control-Allow-Methods'' \<mapsto> JStr ''POST, OPTIONS'',
      ''Access-Control-Allow-Headers'' \<mapsto> JStr allow_headers]"

text \<open>
  The run returned, exactly one response was sent, with status \<open>st\<close>, headers \<open>hs\<close>
  and body \<open>b\<close>, and the provider was called with \<open>calls\<close>.
\<close>

definition responded ::
  "jsval \<Rightarrow> (string \<rightharpoonup> jsval) \<Rightarrow> payload \<Rightarrow> (jsval \<times> jsval) list \<Rightarrow> completion \<times> state" where
  "responded st hs b calls =
     (Returned,
      \<lparr>headers = hs, status_code = st,
       sent = [\<lparr>sent_status = st, sent_headers = hs, sent_body = b\<rparr>],
       provider_calls = calls\<rparr>)"

text \<open>A header map carries the four CORS headers with the values \<open>allowCors\<close> gives them.\<close>

definition has_cors :: "(string \<rightharpoonup> jsval) \<Rightarrow> bool" where
  "has_cors h =
     (h ''Access-Control-Allow-Credentials'' = Some (JBool True) \<and>
      h ''Access-Control-Allow-Origin'' = Some (JStr ''*'') \<and>
      h ''Access-Control-Allow-Methods'' = Some (JStr ''POST, OPTIONS'') \<and>
      h ''Access-Control-Allow-Headers'' = Some (JStr allow_headers))"

section \<open>Properties\<close>

lemma cors_on_fresh:
  "setHeader ''Access-Control-Allow-Headers'' (JStr allow_headers)
     (setHeader ''Access-Control-Allow-Methods'' (JStr ''POST, OPTIONS'')
       (setHeader ''Access-Control-Allow-Origin'' (JStr ''*'')
         (setHeader ''Access-Control-Allow-Credentials'' (JBool True) fresh)))
   = \<lparr>headers = cors_headers, status_code = JNum 200, sent = [], provider_calls = []\<rparr>"
  by (simp add: setHeader_def fresh_def cors_headers_def)

subsection \<open>Helper facts\<close>

lemma starts_with_iff: "starts_with s n = (\<exists>t. s = n @ t)"
  by (induction s n rule: starts_with.induct) auto

lemma str_includes_iff: "str_includes s n = occurs_in n s"
proof (induction s)
  case Nil
  show ?case by (auto simp: occurs_in_def)
next
  case (Cons a s)
  have "occurs_in n (a # s) = ((\<exists>t. a # s = n @ t) \<or> occurs_in n s)"
    unfolding occurs_in_def
    by (auto simp: Cons_eq_append_conv)
  with Cons show ?case
    by (simp add: starts_with_iff)
qed

lemma allowCors_fresh:
  "allowCors fn req fresh =
     (if req_method req = ''OPTIONS'' then responded (JNum 200) cors_headers NoBody []
      else fn req \<lparr>headers = cors_headers, status_code = JNum 200, sent = [], provider_calls = []\<rparr>)"
  by (simp add: allowCors_def cors_on_fresh Let_def responded_def end_response_def send_def
      status_def)

lemma module_exports_post:
  "req_method req = ''POST'' \<Longrightarrow>
   module_exports e gen req fresh =
     handler e gen req
       \<lparr>headers = cors_headers, status_code = JNum 200, sent = [], provider_calls = []\<rparr>"
  by (simp add: module_exports_def allowCors_fresh)

subsection \<open>Success (C1)\<close>

text \<open>
  C1. A POST request whose prompt is truthy (a non-empty string is), with the
  credential configured and a provider call that returns the non-empty text \<open>t\<close>:
  the endpoint returns having sent one response, status 200, whose body is the object
  \<^verbatim>\<open>{candidates: [{content: {parts: [{text: t}]}}]}\<close> and nothing else.
\<close>

theorem success_shape:
  assumes "req_method req = ''POST''"
    and "get_prop (req_body req) ''prompt'' = Inr prompt" and "truthy prompt"
    and "e ''GOOGLE_API_KEY'' = Some key" and "key \<noteq> []"
    and "gen (JStr key) prompt = Resolves (JStr t)" and "t \<noteq> []"
  shows "module_exports e gen req fresh =
    responded (JNum 200) cors_headers
      (Json (JObj [(''candidates'',
         JArr [JObj [(''content'', JObj [(''parts'', JArr [JObj [(''text'', JStr t)]])])]])]))
      [(JStr key, prompt)]"
  using assms
  by (simp add: module_exports_post handler_def getenv_def json_def send_def status_def
      responded_def)

theorem success_shape_witness:
  "module_exports [''GOOGLE_API_KEY'' \<mapsto> ''k''] (\<lambda>k p. Resolves (JStr ''hello''))
     \<lparr>req_method = ''POST'', req_body = JObj [(''prompt'', JStr ''hi'')]\<rparr> fresh =
   responded (JNum 200) cors_headers
     (Json (JObj [(''candidates'',
        JArr [JObj [(''content'', JObj [(''parts'', JArr [JObj [(''text'', JStr ''hello'')]])])]])]))
     [(JStr ''k'', JStr ''hi'')]"
  using success_shape [of "\<lparr>req_method = ''POST'', req_body = JObj [(''prompt'', JStr ''hi'')]\<rparr>"
      "JStr ''hi''" "[''GOOGLE_API_KEY'' \<mapsto> ''k'']" "''k''"
      "\<lambda>k p. Resolves (JStr ''hello'')" "''hello''"]
  by (simp add: get_prop_def)

subsection \<open>Provider errors (C2)\<close>

lemma truthy_not_nullish: "truthy v \<Longrightarrow> \<not> nullish v"
  by (cases v) auto

lemma js_or_truthy: "truthy a \<Longrightarrow> js_or a b = a"
  by (simp add: js_or_def)

lemma normalize_embedded:
  assumes "\<not> nullish err"
    and "truthy (member err ''response'')"
    and "truthy (member (member err ''response'') ''data'')"
  shows "normalize_error err =
    Inr (js_or (member (member err ''response'') ''status'') (JNum 500),
         js_or (opt_chain (member (member (member err ''response'') ''data'') ''error'') ''message'')
           (JStr msg_internal))"
  using assms truthy_not_nullish
  by (simp add: normalize_error_def response_and_data_def embedded_message_def
      embedded_status_def bind_exn_def get_prop_def)

lemma response_and_data_falsy:
  assumes "\<not> nullish err"
    and "\<not> (truthy (member err ''response'') \<and> truthy (member (member err ''response'') ''data''))"
  shows "\<exists>c. response_and_data err = Inr c \<and> \<not> truthy c"
  using assms truthy_not_nullish
  by (auto simp add: response_and_data_def bind_exn_def get_prop_def)

lemma normalize_message:
  assumes "\<not> nullish err"
    and "\<not> (truthy (member err ''response'') \<and> truthy (member (member err ''response'') ''data''))"
    and "member err ''message'' = JStr m" and "m \<noteq> []"
  shows "normalize_error err =
    Inr (if occurs_in ''API key not valid'' m then (JNum 401, JStr msg_api_key)
         else if occurs_in ''Blocked reason'' m then (JNum 403, JStr (msg_blocked @ m))
         else (JNum 500, JStr (''Error de Gemini: '' @ m)))"
proof -
  from response_and_data_falsy [OF assms(1,2)]
  obtain c where "response_and_data err = Inr c" and "\<not> truthy c" by blast
  with assms(1,3,4) show ?thesis
    by (simp add: normalize_error_def bind_exn_def get_prop_def str_includes_iff)
qed

lemma normalize_no_message:
  assumes "\<not> nullish err"
    and "\<not> (truthy (member err ''response'') \<and> truthy (member (member err ''response'') ''data''))"
    and "\<not> truthy (member err ''message'')"
  shows "normalize_error err = Inr (JNum 500, JStr msg_internal)"
proof -
  from response_and_data_falsy [OF assms(1,2)]
  obtain c where "response_and_data err = Inr c" and "\<not> truthy c" by blast
  with assms(1,3) show ?thesis
    by (simp add: normalize_error_def bind_exn_def get_prop_def)
qed

lemma handler_rejects:
  assumes "req_method req = ''POST''"
    and "get_prop (req_body req) ''prompt'' = Inr prompt" and "truthy prompt"
    and "e ''GOOGLE_API_KEY'' = Some key" and "key \<noteq> []"
    and "gen (JStr key) prompt = Rejects err"
    and "normalize_error err = Inr (st, m)"
  shows "module_exports e gen req fresh =
    responded st cors_headers (Json (JObj [(''error'', m)])) [(JStr key, prompt)]"
  using assms
  by (simp add: module_exports_post handler_def getenv_def json_def send_def status_def
      responded_def)

lemma occurs_in_not_Nil: "occurs_in (c # n) m \<Longrightarrow> m \<noteq> []"
  by (auto simp: occurs_in_def)

text \<open>
  C2. A POST request with a truthy prompt and a configured credential whose provider
  call throws \<open>err\<close> (any value but undefined and null; an Error object is one). With
  \<open>r = err.response\<close>, \<open>d = r.data\<close> and \<open>msg = err.message\<close>, the single response is
  \<open>{error: ...}\<close> with, in this order of precedence:
  \<^item> when \<open>r\<close> and \<open>d\<close> are truthy, the status \<open>r.status\<close> and the message
    \<open>d.error?.message\<close> (500 and the generic message standing in for one that is falsy);
  \<^item> otherwise, when \<open>msg\<close> is a string containing \<open>API key not valid\<close>, 401 and the
    credential message;
  \<^item> otherwise, when \<open>msg\<close> is a string containing \<open>Blocked reason\<close>, 403 and a message
    that ends with \<open>msg\<close>;
  \<^item> otherwise, for a non-empty string \<open>msg\<close>, 500 and \<open>Error de Gemini: \<close> followed by
    \<open>msg\<close>; for a falsy \<open>msg\<close>, 500 and the generic message.
\<close>

theorem provider_error_precedence:
  assumes "req_method req = ''POST''"
    and "get_prop (req_body req) ''prompt'' = Inr prompt" and "truthy prompt"
    and "e ''GOOGLE_API_KEY'' = Some key" and "key \<noteq> []"
    and "gen (JStr key) prompt = Rejects err" and "\<not> nullish err"
  shows
    "let r = member err ''response''; d = member r ''data''; msg = member err ''message'';
         run = module_exports e gen req fresh;
         reply = (\<lambda>st m. responded st cors_headers (Json (JObj [(''error'', m)]))
                    [(JStr key, prompt)])
     in (truthy r \<and> truthy d \<longrightarrow>
           run = reply (js_or (member r ''status'') (JNum 500))
                   (js_or (opt_chain (member d ''error'') ''message'') (JStr msg_internal)))
      \<and> (\<forall>st m. truthy r \<and> truthy d \<and> member r ''status'' = st \<and> truthy st \<and>
             opt_chain (member d ''error'') ''message'' = JStr m \<and> m \<noteq> [] \<longrightarrow>
           run = reply st (JStr m))
      \<and> (\<forall>m. \<not> (truthy r \<and> truthy d) \<and> msg = JStr m \<and> occurs_in ''API key not valid'' m \<longrightarrow>
           run = reply (JNum 401) (JStr msg_api_key))
      \<and> (\<forall>m. \<not> (truthy r \<and> truthy d) \<and> msg = JStr m \<and> \<not> occurs_in ''API key not valid'' m \<and>
             occurs_in ''Blocked reason'' m \<longrightarrow>
           run = reply (JNum 403) (JStr (msg_blocked @ m)))
      \<and> (\<forall>m. \<not> (truthy r \<and> truthy d) \<and> msg = JStr m \<and> m \<noteq> [] \<and>
             \<not> occurs_in ''API key not valid'' m \<and> \<not> occurs_in ''Blocked reason'' m \<longrightarrow>
           run = reply (JNum 500) (JStr (''Error de Gemini: '' @ m)))
      \<and> (\<not> (truthy r \<and> truthy d) \<and> \<not> truthy msg \<longrightarrow>
           run = reply (JNum 500) (JStr msg_internal))"
proof -
  note run = handler_rejects [of req prompt e key gen err, OF assms(1-6)]
  have a: "module_exports e gen req fresh =
      responded (js_or (member (member err ''response'') ''status'') (JNum 500)) cors_headers
        (Json (JObj [(''error'',
           js_or (opt_chain (member (member (member err ''response'') ''data'') ''error'') ''message'')
             (JStr msg_internal))]))
        [(JStr key, prompt)]"
    if "truthy (member err ''response'')" "truthy (member (member err ''response'') ''data'')"
    using that by (intro run normalize_embedded assms(7))
  have b: "module_exports e gen req fresh =
      responded (JNum 401) cors_headers (Json (JObj [(''error'', JStr msg_api_key)]))
        [(JStr key, prompt)]"
    if "\<not> (truthy (member err ''response'') \<and> truthy (member (member err ''response'') ''data''))"
      "member err ''message'' = JStr m" "occurs_in ''API key not valid'' m" for m
    using that normalize_message [OF assms(7) that(1,2)] occurs_in_not_Nil [OF that(3)]
    by (intro run) simp
  have c: "module_exports e gen req fresh =
      responded (JNum 403) cors_headers (Json (JObj [(''error'', JStr (msg_blocked @ m))]))
        [(JStr key, prompt)]"
    if "\<not> (truthy (member err ''response'') \<and> truthy (member (member err ''response'') ''data''))"
      "member err ''message'' = JStr m" "\<not> occurs_in ''API key not valid'' m"
      "occurs_in ''Blocked reason'' m" for m
    using that normalize_message [OF assms(7) that(1,2)] occurs_in_not_Nil [OF that(4)]
    by (intro run) simp
  have d: "module_exports e gen req fresh =
      responded (JNum 500) cors_headers (Json (JObj [(''error'', JStr (''Error de Gemini: '' @ m))]))
        [(JStr key, prompt)]"
    if "\<not> (truthy (member err ''response'') \<and> truthy (member (member err ''response'') ''data''))"
      "member err ''message'' = JStr m" "m \<noteq> []" "\<not> occurs_in ''API key not valid'' m"
      "\<not> occurs_in ''Blocked reason'' m" for m
    using that normalize_message [OF assms(7) that(1,2,3)]
    by (intro run) simp
  have e: "module_exports e gen req fresh =
      responded (JNum 500) cors_headers (Json (JObj [(''error'', JStr msg_internal)]))
        [(JStr key, prompt)]"
    if "\<not> (truthy (member err ''response'') \<and> truthy (member (member err ''response'') ''data''))"
      "\<not> truthy (member err ''message'')"
    using that by (intro run normalize_no_message assms(7))
  show ?thesis
    unfolding Let_def
    using a b c d e by (auto simp: js_or_truthy)
qed


theorem provider_error_precedence_witness:
  "module_exports [''GOOGLE_API_KEY'' \<mapsto> ''k'']
     (\<lambda>k p. Rejects (JObj [(''response'', JObj [(''status'', JNum 429),
        (''data'', JObj [(''error'', JObj [(''message'', JStr ''quota'')])])]),
        (''message'', JStr ''API key not valid'')]))
     \<lparr>req_method = ''POST'', req_body = JObj [(''prompt'', JStr ''hi'')]\<rparr> fresh =
   responded (JNum 429) cors_headers (Json (JObj [(''error'', JStr ''quota'')]))
     [(JStr ''k'', JStr ''hi'')] \<and>
   module_exports [''GOOGLE_API_KEY'' \<mapsto> ''k'']
     (\<lambda>k p. Rejects (JObj [(''message'', JStr ''[400] API key not valid. Pass a valid key.'')]))
     \<lparr>req_method = ''POST'', req_body = JObj [(''prompt'', JStr ''hi'')]\<rparr> fresh =
   responded (JNum 401) cors_headers (Json (JObj [(''error'', JStr msg_api_key)]))
     [(JStr ''k'', JStr ''hi'')] \<and>
   module_exports [''GOOGLE_API_KEY'' \<mapsto> ''k'']
     (\<lambda>k p. Rejects (JObj [(''message'', JStr ''Blocked reason: SAFETY'')]))
     \<lparr>req_method = ''POST'', req_body = JObj [(''prompt'', JStr ''hi'')]\<rparr> fresh =
   responded (JNum 403) cors_headers
     (Json (JObj [(''error'', JStr (msg_blocked @ ''Blocked reason: SAFETY''))]))
     [(JStr ''k'', JStr ''hi'')] \<and>
   module_exports [''GOOGLE_API_KEY'' \<mapsto> ''k'']
     (\<lambda>k p. Rejects (JObj [(''message'', JStr ''fetch failed'')]))
     \<lparr>req_method = ''POST'', req_body = JObj [(''prompt'', JStr ''hi'')]\<rparr> fresh =
   responded (JNum 500) cors_headers
     (Json (JObj [(''error'', JStr ''Error de Gemini: fetch failed'')]))
     [(JStr ''k'', JStr ''hi'')] \<and>
   module_exports [''GOOGLE_API_KEY'' \<mapsto> ''k''] (\<lambda>k p. Rejects (JObj []))
     \<lparr>req_method = ''POST'', req_body = JObj [(''prompt'', JStr ''hi'')]\<rparr> fresh =
   responded (JNum 500) cors_headers (Json (JObj [(''error'', JStr msg_internal)]))
     [(JStr ''k'', JStr ''hi'')]"
proof (intro conjI)
  let ?req = "\<lparr>req_method = ''POST'', req_body = JObj [(''prompt'', JStr ''hi'')]\<rparr>"
  let ?e = "[''GOOGLE_API_KEY'' \<mapsto> ''k'']"
  show "module_exports ?e
     (\<lambda>k p. Rejects (JObj [(''response'', JObj [(''status'', JNum 429),
        (''data'', JObj [(''error'', JObj [(''message'', JStr ''quota'')])])]),
        (''message'', JStr ''API key not valid'')])) ?req fresh =
   responded (JNum 429) cors_headers (Json (JObj [(''error'', JStr ''quota'')]))
     [(JStr ''k'', JStr ''hi'')]"
    using provider_error_precedence [of ?req "JStr ''hi''" ?e "''k''"
      "\<lambda>k p. Rejects (JObj [(''response'', JObj [(''status'', JNum 429),
        (''data'', JObj [(''error'', JObj [(''message'', JStr ''quota'')])])]),
        (''message'', JStr ''API key not valid'')])"
      "JObj [(''response'', JObj [(''status'', JNum 429),
        (''data'', JObj [(''error'', JObj [(''message'', JStr ''quota'')])])]),
        (''message'', JStr ''API key not valid'')]"]
    by (simp add: Let_def get_prop_def opt_chain_def js_or_def)
  show "module_exports ?e
     (\<lambda>k p. Rejects (JObj [(''message'', JStr ''[400] API key not valid. Pass a valid key.'')]))
     ?req fresh =
   responded (JNum 401) cors_headers (Json (JObj [(''error'', JStr msg_api_key)]))
     [(JStr ''k'', JStr ''hi'')]"
    using provider_error_precedence [of ?req "JStr ''hi''" ?e "''k''"
      "\<lambda>k p. Rejects (JObj [(''message'', JStr ''[400] API key not valid. Pass a valid key.'')])"
      "JObj [(''message'', JStr ''[400] API key not valid. Pass a valid key.'')]"]
    by (simp add: Let_def get_prop_def str_includes_iff [symmetric])
  show "module_exports ?e
     (\<lambda>k p. Rejects (JObj [(''message'', JStr ''Blocked reason: SAFETY'')])) ?req fresh =
   responded (JNum 403) cors_headers
     (Json (JObj [(''error'', JStr (msg_blocked @ ''Blocked reason: SAFETY''))]))
     [(JStr ''k'', JStr ''hi'')]"
    using provider_error_precedence [of ?req "JStr ''hi''" ?e "''k''"
      "\<lambda>k p. Rejects (JObj [(''message'', JStr ''Blocked reason: SAFETY'')])"
      "JObj [(''message'', JStr ''Blocked reason: SAFETY'')]"]
    by (simp add: Let_def get_prop_def str_includes_iff [symmetric])
  show "module_exports ?e
     (\<lambda>k p. Rejects (JObj [(''message'', JStr ''fetch failed'')])) ?req fresh =
   responded (JNum 500) cors_headers
     (Json (JObj [(''error'', JStr ''Error de Gemini: fetch failed'')]))
     [(JStr ''k'', JStr ''hi'')]"
    using provider_error_precedence [of ?req "JStr ''hi''" ?e "''k''"
      "\<lambda>k p. Rejects (JObj [(''message'', JStr ''fetch failed'')])"
      "JObj [(''message'', JStr ''fetch failed'')]"]
    by (simp add: Let_def get_prop_def str_includes_iff [symmetric])
  show "module_exports ?e (\<lambda>k p. Rejects (JObj [])) ?req fresh =
   responded (JNum 500) cors_headers (Json (JObj [(''error'', JStr msg_internal)]))
     [(JStr ''k'', JStr ''hi'')]"
    using provider_error_precedence [of ?req "JStr ''hi''" ?e "''k''"
      "\<lambda>k p. Rejects (JObj [])" "JObj []"]
    by (simp add: Let_def get_prop_def)
qed

subsection \<open>CORS headers (C3)\<close>

lemma has_cors_cors_headers: "has_cors cors_headers"
  by (simp add: has_cors_def cors_headers_def)

lemma has_cors_allow: "has_cors h \<Longrightarrow> has_cors (h(''Allow'' \<mapsto> v))"
  by (simp add: has_cors_def)

lemma handler_keeps_cors:
  assumes "has_cors (headers s)" and "\<forall>r \<in> set (sent s). has_cors (sent_headers r)"
  shows "has_cors (headers (snd (handler e gen req s))) \<and>
         (\<forall>r \<in> set (sent (snd (handler e gen req s))). has_cors (sent_headers r))"
  using assms
  by (auto simp: handler_def json_def send_def status_def setHeader_def Let_def has_cors_allow
      split: sum.splits outcome.splits prod.splits)

text \<open>
  C3. Whatever the request, the environment and the provider do, the four CORS headers
  are set on the response object when the exported function is done, and every
  response it sent carried them.
\<close>

theorem cors_headers_always:
  "has_cors (headers (snd (module_exports e gen req fresh))) \<and>
   (\<forall>r \<in> set (sent (snd (module_exports e gen req fresh))). has_cors (sent_headers r))"
proof (cases "req_method req = ''OPTIONS''")
  case True
  then show ?thesis
    by (simp add: module_exports_def allowCors_fresh responded_def has_cors_cors_headers)
next
  case False
  have "has_cors (headers \<lparr>headers = cors_headers, status_code = JNum 200, sent = [], provider_calls = []\<rparr>)"
    by (simp add: has_cors_cors_headers)
  moreover have "\<forall>r \<in> set (sent \<lparr>headers = cors_headers, status_code = JNum 200, sent = [], provider_calls = []\<rparr>). has_cors (sent_headers r)"
    by simp
  ultimately have "has_cors (headers (snd (handler e gen req
        \<lparr>headers = cors_headers, status_code = JNum 200, sent = [], provider_calls = []\<rparr>))) \<and>
      (\<forall>r \<in> set (sent (snd (handler e gen req
        \<lparr>headers = cors_headers, status_code = JNum 200, sent = [], provider_calls = []\<rparr>))).
          has_cors (sent_headers r))"
    by (rule handler_keeps_cors)
  with False show ?thesis
    by (simp add: module_exports_def allowCors_fresh)
qed

theorem cors_headers_always_witness:
  "has_cors (headers (snd (module_exports Map.empty (\<lambda>k p. Resolves JUndefined)
       \<lparr>req_method = ''GET'', req_body = JUndefined\<rparr> fresh))) \<and>
   list_all (\<lambda>r. has_cors (sent_headers r))
     (sent (snd (module_exports Map.empty (\<lambda>k p. Resolves JUndefined)
       \<lparr>req_method = ''GET'', req_body = JUndefined\<rparr> fresh))) \<and>
   length (sent (snd (module_exports Map.empty (\<lambda>k p. Resolves JUndefined)
       \<lparr>req_method = ''GET'', req_body = JUndefined\<rparr> fresh))) = 1"
  using cors_headers_always [of Map.empty "\<lambda>k p. Resolves JUndefined"
      "\<lparr>req_method = ''GET'', req_body = JUndefined\<rparr>"]
  by (simp add: list_all_iff module_exports_def allowCors_fresh handler_def json_def send_def
      status_def setHeader_def)

subsection \<open>Method rejection (C4)\<close>

text \<open>
  C4. For a method other than POST, \<open>handler\<close> sends one response with status 405, the
  header \<open>Allow\<close> set to \<open>[POST]\<close> and the body \<open>{error: msg_method}\<close>; through the
  export the same holds, with the CORS headers, for every method other than POST and
  OPTIONS.
\<close>

theorem method_not_allowed:
  assumes "req_method req \<noteq> ''POST''"
  shows "handler e gen req fresh =
           responded (JNum 405) [''Allow'' \<mapsto> JArr [JStr ''POST'']]
             (Json (JObj [(''error'', JStr msg_method)])) [] \<and>
         (req_method req \<noteq> ''OPTIONS'' \<longrightarrow>
          module_exports e gen req fresh =
           responded (JNum 405) (cors_headers(''Allow'' \<mapsto> JArr [JStr ''POST'']))
             (Json (JObj [(''error'', JStr msg_method)])) [])"
proof
  show "handler e gen req fresh =
           responded (JNum 405) [''Allow'' \<mapsto> JArr [JStr ''POST'']]
             (Json (JObj [(''error'', JStr msg_method)])) []"
    using assms
    by (simp add: handler_def json_def send_def status_def setHeader_def responded_def fresh_def)
  show "req_method req \<noteq> ''OPTIONS'' \<longrightarrow>
        module_exports e gen req fresh =
           responded (JNum 405) (cors_headers(''Allow'' \<mapsto> JArr [JStr ''POST'']))
             (Json (JObj [(''error'', JStr msg_method)])) []"
    using assms
    by (simp add: module_exports_def allowCors_fresh handler_def json_def send_def status_def
        setHeader_def responded_def)
qed

theorem method_not_allowed_witness:
  "handler Map.empty (\<lambda>k p. Resolves (JStr ''x''))
     \<lparr>req_method = ''GET'', req_body = JUndefined\<rparr> fresh =
   responded (JNum 405) [''Allow'' \<mapsto> JArr [JStr ''POST'']]
     (Json (JObj [(''error'', JStr msg_method)])) [] \<and>
   module_exports Map.empty (\<lambda>k p. Resolves (JStr ''x''))
     \<lparr>req_method = ''PUT'', req_body = JObj [(''prompt'', JStr ''hi'')]\<rparr> fresh =
   responded (JNum 405) (cors_headers(''Allow'' \<mapsto> JArr [JStr ''POST'']))
     (Json (JObj [(''error'', JStr msg_method)])) []"
  using method_not_allowed [of "\<lparr>req_method = ''GET'', req_body = JUndefined\<rparr>"
      Map.empty "\<lambda>k p. Resolves (JStr ''x'')"]
    method_not_allowed [of "\<lparr>req_method = ''PUT'', req_body = JObj [(''prompt'', JStr ''hi'')]\<rparr>"
      Map.empty "\<lambda>k p. Resolves (JStr ''x'')"]
  by simp

subsection \<open>Preflight (C5)\<close>

text \<open>
  C5. For an OPTIONS request the wrapper sends one response, status 200, no body, with
  the CORS headers, and returns. The result is the same for every wrapped function
  \<open>fn\<close>, which is therefore not run: no validation, no provider call.
\<close>

theorem preflight:
  assumes "req_method req = ''OPTIONS''"
  shows "allowCors fn req fresh = responded (JNum 200) cors_headers NoBody [] \<and>
         module_exports e gen req fresh = responded (JNum 200) cors_headers NoBody []"
  using assms by (simp add: module_exports_def allowCors_fresh)

theorem preflight_witness:
  "allowCors (\<lambda>req res. (Threw TypeError, res))
     \<lparr>req_method = ''OPTIONS'', req_body = JUndefined\<rparr> fresh =
   responded (JNum 200) cors_headers NoBody [] \<and>
   module_exports Map.empty (\<lambda>k p. Rejects JNull)
     \<lparr>req_method = ''OPTIONS'', req_body = JUndefined\<rparr> fresh =
   responded (JNum 200) cors_headers NoBody []"
  using preflight [of "\<lparr>req_method = ''OPTIONS'', req_body = JUndefined\<rparr>"
      "\<lambda>req res. (Threw TypeError, res)" Map.empty "\<lambda>k p. Rejects JNull"]
  by simp

subsection \<open>Prompt validation (C6, C10)\<close>

text \<open>
  A POST request whose body is present (neither undefined nor null) and has no
  \<open>prompt\<close> property, or the empty string as its prompt: one response, status 400,
  body \<open>{error: msg_prompt}\<close>, and no call to the provider.
\<close>

lemma prompt_required:
  assumes "req_method req = ''POST''"
    and "get_prop (req_body req) ''prompt'' = Inr v"
    and "v = JUndefined \<or> v = JStr []"
  shows "module_exports e gen req fresh =
           responded (JNum 400) cors_headers (Json (JObj [(''error'', JStr msg_prompt)])) []"
  using assms
  by (auto simp add: module_exports_post handler_def json_def send_def status_def responded_def)

lemma prompt_required_examples:
  "module_exports [''GOOGLE_API_KEY'' \<mapsto> ''k''] (\<lambda>k p. Resolves (JStr ''x''))
     \<lparr>req_method = ''POST'', req_body = JObj []\<rparr> fresh =
   responded (JNum 400) cors_headers (Json (JObj [(''error'', JStr msg_prompt)])) [] \<and>
   module_exports [''GOOGLE_API_KEY'' \<mapsto> ''k''] (\<lambda>k p. Resolves (JStr ''x''))
     \<lparr>req_method = ''POST'', req_body = JObj [(''prompt'', JStr [])]\<rparr> fresh =
   responded (JNum 400) cors_headers (Json (JObj [(''error'', JStr msg_prompt)])) []"
  using prompt_required [of "\<lparr>req_method = ''POST'', req_body = JObj []\<rparr>" JUndefined
      "[''GOOGLE_API_KEY'' \<mapsto> ''k'']" "\<lambda>k p. Resolves (JStr ''x'')"]
    prompt_required [of "\<lparr>req_method = ''POST'', req_body = JObj [(''prompt'', JStr [])]\<rparr>"
      "JStr []" "[''GOOGLE_API_KEY'' \<mapsto> ''k'']" "\<lambda>k p. Resolves (JStr ''x'')"]
  by (simp add: get_prop_def)

text \<open>
  C6. A POST request with no body at all, or with the JSON body \<open>null\<close>, has no prompt
  field either, but it is not answered with the 400 of a missing prompt: the read of
  \<open>prompt\<close> on line 45 throws before the check on line 47, nothing is sent, and the
  exported function ends with the TypeError.
\<close>

theorem prompt_missing_without_body:
  "module_exports e gen \<lparr>req_method = ''POST'', req_body = JNull\<rparr> fresh \<noteq>
     responded (JNum 400) cors_headers (Json (JObj [(''error'', JStr msg_prompt)])) [] \<and>
   fst (module_exports e gen \<lparr>req_method = ''POST'', req_body = JNull\<rparr> fresh) =
     Threw TypeError \<and>
   sent (snd (module_exports e gen \<lparr>req_method = ''POST'', req_body = JNull\<rparr> fresh)) = [] \<and>
   module_exports e gen \<lparr>req_method = ''POST'', req_body = JUndefined\<rparr> fresh \<noteq>
     responded (JNum 400) cors_headers (Json (JObj [(''error'', JStr msg_prompt)])) [] \<and>
   fst (module_exports e gen \<lparr>req_method = ''POST'', req_body = JUndefined\<rparr> fresh) =
     Threw TypeError \<and>
   sent (snd (module_exports e gen \<lparr>req_method = ''POST'', req_body = JUndefined\<rparr> fresh)) = []"
  by (simp add: module_exports_post handler_def get_prop_def responded_def)

lemma handler_calls_once:
  assumes "req_method req = ''POST''"
    and "get_prop (req_body req) ''prompt'' = Inr prompt" and "truthy prompt"
    and "e ''GOOGLE_API_KEY'' = Some key" and "key \<noteq> []"
  shows "provider_calls (snd (module_exports e gen req fresh)) = [(JStr key, prompt)]"
  using assms
  by (simp add: module_exports_post handler_def getenv_def json_def send_def status_def Let_def
      split: outcome.splits sum.splits prod.splits)

text \<open>
  C10. The check on the prompt is a truthiness check. For a POST request with a body,
  a falsy prompt (undefined, the empty string, 0, false, null) gets the 400 response of
  a missing one; a truthy prompt, a string of one space included, passes: without a
  credential the answer is the 500 configuration error, and with one the provider is
  called once with that prompt.
\<close>

theorem prompt_truthiness:
  assumes "req_method req = ''POST''" and "\<not> nullish (req_body req)"
  shows
    "let v = member (req_body req) ''prompt''; run = module_exports e gen req fresh
     in (\<not> truthy v \<longrightarrow>
           run = responded (JNum 400) cors_headers (Json (JObj [(''error'', JStr msg_prompt)])) [])
      \<and> (truthy v \<and> e ''GOOGLE_API_KEY'' = None \<longrightarrow>
           run = responded (JNum 500) cors_headers (Json (JObj [(''error'', JStr msg_config)])) [])
      \<and> (\<forall>key. truthy v \<and> e ''GOOGLE_API_KEY'' = Some key \<and> key \<noteq> [] \<longrightarrow>
           provider_calls (snd run) = [(JStr key, v)])
      \<and> \<not> truthy JUndefined \<and> \<not> truthy (JStr []) \<and> \<not> truthy (JNum 0)
      \<and> \<not> truthy (JBool False) \<and> \<not> truthy JNull \<and> truthy (JStr '' '')"
proof -
  have p: "get_prop (req_body req) ''prompt'' = Inr (member (req_body req) ''prompt'')"
    using assms(2) by (simp add: get_prop_def)
  have a: "module_exports e gen req fresh =
      responded (JNum 400) cors_headers (Json (JObj [(''error'', JStr msg_prompt)])) []"
    if "\<not> truthy (member (req_body req) ''prompt'')"
    using that assms(1) p
    by (simp add: module_exports_post handler_def json_def send_def status_def responded_def)
  have b: "module_exports e gen req fresh =
      responded (JNum 500) cors_headers (Json (JObj [(''error'', JStr msg_config)])) []"
    if "truthy (member (req_body req) ''prompt'')" "e ''GOOGLE_API_KEY'' = None"
    using that assms(1) p
    by (simp add: module_exports_post handler_def getenv_def json_def send_def status_def
        responded_def)
  have c: "provider_calls (snd (module_exports e gen req fresh)) =
      [(JStr key, member (req_body req) ''prompt'')]"
    if "truthy (member (req_body req) ''prompt'')" "e ''GOOGLE_API_KEY'' = Some key" "key \<noteq> []"
    for key
    using handler_calls_once [of req "member (req_body req) ''prompt''" e key gen, OF assms(1) p that] .
  show ?thesis
    unfolding Let_def using a b c by simp
qed

theorem prompt_truthiness_witness:
  "module_exports Map.empty (\<lambda>k p. Resolves (JStr ''x''))
     \<lparr>req_method = ''POST'', req_body = JObj [(''prompt'', JNum 0)]\<rparr> fresh =
   responded (JNum 400) cors_headers (Json (JObj [(''error'', JStr msg_prompt)])) [] \<and>
   module_exports Map.empty (\<lambda>k p. Resolves (JStr ''x''))
     \<lparr>req_method = ''POST'', req_body = JObj [(''prompt'', JStr '' '')]\<rparr> fresh =
   responded (JNum 500) cors_headers (Json (JObj [(''error'', JStr msg_config)])) [] \<and>
   provider_calls (snd (module_exports [''GOOGLE_API_KEY'' \<mapsto> ''k''] (\<lambda>k p. Resolves (JStr ''x''))
     \<lparr>req_method = ''POST'', req_body = JObj [(''prompt'', JStr '' '')]\<rparr> fresh)) =
   [(JStr ''k'', JStr '' '')]"
proof (intro conjI)
  show "module_exports Map.empty (\<lambda>k p. Resolves (JStr ''x''))
     \<lparr>req_method = ''POST'', req_body = JObj [(''prompt'', JNum 0)]\<rparr> fresh =
   responded (JNum 400) cors_headers (Json (JObj [(''error'', JStr msg_prompt)])) []"
    using prompt_truthiness [of "\<lparr>req_method = ''POST'', req_body = JObj [(''prompt'', JNum 0)]\<rparr>"
        Map.empty "\<lambda>k p. Resolves (JStr ''x'')"]
    by (simp add: Let_def)
  show "module_exports Map.empty (\<lambda>k p. Resolves (JStr ''x''))
     \<lparr>req_method = ''POST'', req_body = JObj [(''prompt'', JStr '' '')]\<rparr> fresh =
   responded (JNum 500) cors_headers (Json (JObj [(''error'', JStr msg_config)])) []"
    using prompt_truthiness [of "\<lparr>req_method = ''POST'', req_body = JObj [(''prompt'', JStr '' '')]\<rparr>"
        Map.empty "\<lambda>k p. Resolves (JStr ''x'')"]
    by (simp add: Let_def)
  show "provider_calls (snd (module_exports [''GOOGLE_API_KEY'' \<mapsto> ''k''] (\<lambda>k p. Resolves (JStr ''x''))
     \<lparr>req_method = ''POST'', req_body = JObj [(''prompt'', JStr '' '')]\<rparr> fresh)) =
   [(JStr ''k'', JStr '' '')]"
    using prompt_truthiness [of "\<lparr>req_method = ''POST'', req_body = JObj [(''prompt'', JStr '' '')]\<rparr>"
        "[''GOOGLE_API_KEY'' \<mapsto> ''k'']" "\<lambda>k p. Resolves (JStr ''x'')"]
    by (simp add: Let_def)
qed

subsection \<open>Missing credential (C7)\<close>

text \<open>
  C7. A POST request with a truthy prompt when \<open>GOOGLE_API_KEY\<close> is not set: one
  response, status 500, body \<open>{error: msg_config}\<close>, and no call to the provider.
\<close>

theorem credential_missing:
  assumes "req_method req = ''POST''"
    and "get_prop (req_body req) ''prompt'' = Inr prompt" and "truthy prompt"
    and "e ''GOOGLE_API_KEY'' = None"
  shows "module_exports e gen req fresh =
           responded (JNum 500) cors_headers (Json (JObj [(''error'', JStr msg_config)])) []"
  using assms
  by (simp add: module_exports_post handler_def getenv_def json_def send_def status_def
      responded_def)

theorem credential_missing_witness:
  "module_exports Map.empty (\<lambda>k p. Resolves (JStr ''x''))
     \<lparr>req_method = ''POST'', req_body = JObj [(''prompt'', JStr ''hi'')]\<rparr> fresh =
   responded (JNum 500) cors_headers (Json (JObj [(''error'', JStr msg_config)])) []"
  using credential_missing [of "\<lparr>req_method = ''POST'', req_body = JObj [(''prompt'', JStr ''hi'')]\<rparr>"
      "JStr ''hi''" Map.empty "\<lambda>k p. Resolves (JStr ''x'')"]
  by (simp add: get_prop_def)

subsection \<open>Empty text (C8)\<close>

text \<open>
  C8. A POST request with a truthy prompt and a configured credential whose provider
  call returns a falsy text: one response, status 500, body \<open>{error: msg_no_text}\<close>.
\<close>

theorem empty_text:
  assumes "req_method req = ''POST''"
    and "get_prop (req_body req) ''prompt'' = Inr prompt" and "truthy prompt"
    and "e ''GOOGLE_API_KEY'' = Some key" and "key \<noteq> []"
    and "gen (JStr key) prompt = Resolves text" and "\<not> truthy text"
  shows "module_exports e gen req fresh =
           responded (JNum 500) cors_headers (Json (JObj [(''error'', JStr msg_no_text)]))
             [(JStr key, prompt)]"
  using assms
  by (simp add: module_exports_post handler_def getenv_def json_def send_def status_def
      responded_def)

theorem empty_text_witness:
  "module_exports [''GOOGLE_API_KEY'' \<mapsto> ''k''] (\<lambda>k p. Resolves (JStr []))
     \<lparr>req_method = ''POST'', req_body = JObj [(''prompt'', JStr ''hi'')]\<rparr> fresh =
   responded (JNum 500) cors_headers (Json (JObj [(''error'', JStr msg_no_text)]))
     [(JStr ''k'', JStr ''hi'')] \<and>
   module_exports [''GOOGLE_API_KEY'' \<mapsto> ''k''] (\<lambda>k p. Resolves JUndefined)
     \<lparr>req_method = ''POST'', req_body = JObj [(''prompt'', JStr ''hi'')]\<rparr> fresh =
   responded (JNum 500) cors_headers (Json (JObj [(''error'', JStr msg_no_text)]))
     [(JStr ''k'', JStr ''hi'')]"
  using empty_text [of "\<lparr>req_method = ''POST'', req_body = JObj [(''prompt'', JStr ''hi'')]\<rparr>"
      "JStr ''hi''" "[''GOOGLE_API_KEY'' \<mapsto> ''k'']" "''k''" "\<lambda>k p. Resolves (JStr [])" "JStr []"]
    empty_text [of "\<lparr>req_method = ''POST'', req_body = JObj [(''prompt'', JStr ''hi'')]\<rparr>"
      "JStr ''hi''" "[''GOOGLE_API_KEY'' \<mapsto> ''k'']" "''k''" "\<lambda>k p. Resolves JUndefined" JUndefined]
  by (simp add: get_prop_def)

subsection \<open>One response per request (C9)\<close>

text \<open>
  C9. A POST request whose \<open>req.body\<close> is undefined or null: the destructuring on
  line 45 throws a TypeError outside the try block, so the exported function ends with
  that exception and has sent no response.
\<close>

theorem post_without_body_throws:
  "module_exports e gen \<lparr>req_method = ''POST'', req_body = JUndefined\<rparr> fresh =
     (Threw TypeError,
      \<lparr>headers = cors_headers, status_code = JNum 200, sent = [], provider_calls = []\<rparr>) \<and>
   module_exports e gen \<lparr>req_method = ''POST'', req_body = JNull\<rparr> fresh =
     (Threw TypeError,
      \<lparr>headers = cors_headers, status_code = JNum 200, sent = [], provider_calls = []\<rparr>)"
  by (simp add: module_exports_post handler_def get_prop_def)

text \<open>
  On every other request exactly one response is sent, provided the catch block itself
  does not throw on the value the provider threw.
\<close>

lemma one_response_otherwise:
  assumes "req_method req = ''POST'' \<Longrightarrow> \<not> nullish (req_body req)"
    and "\<And>k p err. gen k p = Rejects err \<Longrightarrow> \<exists>st m. normalize_error err = Inr (st, m)"
  shows "\<exists>st hs b calls. module_exports e gen req fresh = responded st hs b calls"
proof (cases "req_method req = ''OPTIONS''")
  case True
  then show ?thesis by (auto simp: module_exports_def allowCors_fresh)
next
  case False
  show ?thesis
  proof (cases "req_method req = ''POST''")
    case np: False
    with False show ?thesis
      by (simp add: module_exports_def allowCors_fresh handler_def json_def send_def status_def
          setHeader_def responded_def)
  next
    case True
    with assms(1) have nn: "\<not> nullish (req_body req)" by simp
    show ?thesis
    proof (cases "gen (getenv e ''GOOGLE_API_KEY'') (member (req_body req) ''prompt'')")
      case (Resolves t)
      with True nn show ?thesis
        by (simp add: module_exports_post handler_def get_prop_def json_def send_def status_def
            responded_def Let_def)
    next
      case (Rejects err)
      from assms(2) [OF Rejects] obtain st m where "normalize_error err = Inr (st, m)" by blast
      with Rejects True nn show ?thesis
        by (simp add: module_exports_post handler_def get_prop_def json_def send_def status_def
            responded_def Let_def)
    qed
  qed
qed

end
